theory Spec2Isabelle
  imports Complex_Main
begin

section \<open>Python values\<close>

text \<open>
  The downloader works on decoded JSON: dictionaries, lists, strings, numbers, booleans
  and null, indexed and converted dynamically. A value of the program is a \<open>pyval\<close>.
  A dictionary keeps its key/value pairs in insertion order; a lookup takes the first
  pair with the key. Strings are sequences of ASCII characters. A float is a sign, a
  mantissa and a binary exponent (\<open>m * 2 ^ e\<close>), an infinity or a NaN. A
  \<open>decimal.Decimal\<close> is a sign, a coefficient and a decimal exponent; the
  program creates them, JSON never contains one.
\<close>

datatype pyfloat = FloatVal bool nat int | FloatInf bool | FloatNaN

datatype decimal = Decimal (dec_sign: bool) (dec_int: nat) (dec_exp: int)

datatype pyval =
    PNone
  | PBool bool
  | PInt int
  | PFloat pyfloat
  | PStr string
  | PDec decimal
  | PList "pyval list"
  | PDict "(string \<times> pyval) list"

section \<open>Exceptions\<close>

text \<open>
  A raised exception is a value. The three \<open>RuntimeError\<close>s that the downloader
  raises itself record which \<open>raise\<close> statement built them and from what, so that
  the message text can be read off (\<open>exc_text\<close> below). \<open>RequestException\<close>
  stands for what the HTTP library raises other than \<open>HTTPError\<close> (a failed
  connection, a body that is not JSON) and carries that library's text.
  \<open>NotModelled\<close> is no Python exception: it marks a library behaviour that this
  development does not describe (a NaN or an infinity as a \<open>Decimal\<close>, a power
  with a fractional exponent, float arithmetic on a divisor).
\<close>

datatype dec_signal = InvalidOperation | DivisionByZero | Overflow

datatype pyexc =
    KeyError string
  | TypeError
  | ValueError
  | AttributeError
  | OverflowError
  | DecimalException dec_signal
  | RequestException string
  | RuntimeError rt_message
  | NotModelled
and rt_message =
    ApiError pyval
  | HttpErrorOccurred string
  | AnErrorOccurred pyexc

type_synonym 'a result = "pyexc + 'a"

definition pbind :: "'a result \<Rightarrow> ('a \<Rightarrow> 'b result) \<Rightarrow> 'b result" where
  "pbind m f = (case m of Inl e \<Rightarrow> Inl e | Inr x \<Rightarrow> f x)"

section \<open>Built-in operations\<close>

text \<open>\<open>v[k]\<close> for a string key \<open>k\<close>.\<close>

fun py_getitem :: "pyval \<Rightarrow> string \<Rightarrow> pyval result" where
  "py_getitem (PDict kvs) k =
     (case map_of kvs k of None \<Rightarrow> Inl (KeyError k) | Some v \<Rightarrow> Inr v)"
| "py_getitem _ k = Inl TypeError"

text \<open>\<open>k in v\<close> for a string \<open>k\<close>: a key of a dictionary, an element of a list, a substring of a string.\<close>

fun substring :: "string \<Rightarrow> string \<Rightarrow> bool" where
  "substring p [] = (p = [])"
| "substring p (c # cs) = (take (length p) (c # cs) = p \<or> substring p cs)"

fun py_in :: "string \<Rightarrow> pyval \<Rightarrow> bool result" where
  "py_in k (PDict kvs) = Inr (k \<in> set (map fst kvs))"
| "py_in k (PList xs) = Inr (PStr k \<in> set xs)"
| "py_in k (PStr s) = Inr (substring k s)"
| "py_in k _ = Inl TypeError"

text \<open>Iteration (\<open>for item in v\<close>): the elements of a list, the keys of a dictionary, the characters of a string.\<close>

fun py_iter :: "pyval \<Rightarrow> pyval list result" where
  "py_iter (PList xs) = Inr xs"
| "py_iter (PDict kvs) = Inr (map (\<lambda>kv. PStr (fst kv)) kvs)"
| "py_iter (PStr s) = Inr (map (\<lambda>c. PStr [c]) s)"
| "py_iter _ = Inl TypeError"

text \<open>Truth value (\<open>if v:\<close>).\<close>

fun py_bool :: "pyval \<Rightarrow> bool" where
  "py_bool PNone = False"
| "py_bool (PBool b) = b"
| "py_bool (PInt n) = (n \<noteq> 0)"
| "py_bool (PFloat (FloatVal s m e)) = (m \<noteq> 0)"
| "py_bool (PFloat _) = True"
| "py_bool (PStr s) = (s \<noteq> [])"
| "py_bool (PDec d) = (dec_int d \<noteq> 0)"
| "py_bool (PList xs) = (xs \<noteq> [])"
| "py_bool (PDict kvs) = (kvs \<noteq> [])"

subsection \<open>Strings\<close>

definition is_digit :: "char \<Rightarrow> bool" where
  "is_digit c = (48 \<le> (of_char c :: nat) \<and> (of_char c :: nat) \<le> 57)"

definition digit_val :: "char \<Rightarrow> nat" where
  "digit_val c = of_char c - 48"

definition nat_of_digits :: "string \<Rightarrow> nat" where
  "nat_of_digits s = foldl (\<lambda>n c. 10 * n + digit_val c) 0 s"

definition is_space :: "char \<Rightarrow> bool" where
  "is_space c = (let n = (of_char c :: nat) in (9 \<le> n \<and> n \<le> 13) \<or> (28 \<le> n \<and> n \<le> 32))"

definition strip :: "string \<Rightarrow> string" where
  "strip s = dropWhile is_space (rev (dropWhile is_space (rev s)))"

definition lower_char :: "char \<Rightarrow> char" where
  "lower_char c =
     (let n = (of_char c :: nat) in if 65 \<le> n \<and> n \<le> 90 then char_of (n + 32) else c)"

definition lower :: "string \<Rightarrow> string" where
  "lower s = map lower_char s"

text \<open>\<open>v.lower()\<close>: only a string has the method.\<close>

fun py_lower :: "pyval \<Rightarrow> string result" where
  "py_lower (PStr s) = Inr (lower s)"
| "py_lower _ = Inl AttributeError"

subsection \<open>\<open>int(v)\<close>\<close>

text \<open>
  A string is stripped of surrounding whitespace; then come an optional sign and decimal
  digits, where single underscores may separate digits. The interpreter's configurable
  limit on the length of a digit string is not part of the model. A float and a
  \<open>Decimal\<close> are truncated towards zero.
\<close>

fun int_body :: "bool \<Rightarrow> string \<Rightarrow> bool" where
  "int_body d [] = d"
| "int_body d (c # cs) =
     (if is_digit c then int_body True cs else c = CHR ''_'' \<and> d \<and> int_body False cs)"

definition int_of_str :: "string \<Rightarrow> int result" where
  "int_of_str s =
     (let t = strip s;
          neg = (t \<noteq> [] \<and> hd t = CHR ''-'');
          body = (if t \<noteq> [] \<and> (hd t = CHR ''-'' \<or> hd t = CHR ''+'') then tl t else t)
      in if int_body False body
         then Inr ((if neg then - 1 else 1) * int (nat_of_digits (filter is_digit body)))
         else Inl ValueError)"

definition signed :: "bool \<Rightarrow> nat \<Rightarrow> int" where
  "signed neg n = (if neg then - int n else int n)"

fun py_int :: "pyval \<Rightarrow> int result" where
  "py_int (PStr s) = int_of_str s"
| "py_int (PInt n) = Inr n"
| "py_int (PBool b) = Inr (if b then 1 else 0)"
| "py_int (PFloat (FloatVal s m e)) =
     Inr (signed s (if 0 \<le> e then m * 2 ^ nat e else m div 2 ^ nat (- e)))"
| "py_int (PFloat (FloatInf s)) = Inl OverflowError"
| "py_int (PFloat FloatNaN) = Inl ValueError"
| "py_int (PDec (Decimal s c e)) =
     Inr (signed s (if 0 \<le> e then c * 10 ^ nat e else c div 10 ^ nat (- e)))"
| "py_int _ = Inl TypeError"

section \<open>The environment\<close>

text \<open>
  The world outside the program: a clock (\<open>time.time()\<close>, read in seconds), the
  requests sent so far, the files and directories written and the lines printed. The
  network is a function \<open>net\<close>: given how many requests were sent before and the
  request, it says how long the request takes and how it ends. Clock readings are
  rational numbers here, where Python has floats.
\<close>

record request =
  req_url :: string
  req_params :: "(string \<times> string) list"
  req_headers :: "(string \<times> string) list"
  req_auth :: "(string \<times> string) option"

text \<open>
  The four ways a GET can end: the library raises on sending (\<open>ConnectionFailed\<close>),
  \<open>raise_for_status\<close> raises \<open>HTTPError\<close> (\<open>StatusError\<close>), \<open>response.json()\<close>
  raises (\<open>InvalidJson\<close>), or the body decodes to a value. The strings are the texts
  of the library's exceptions.
\<close>

datatype http_outcome =
    ConnectionFailed string
  | StatusError string
  | InvalidJson string
  | Json pyval

type_synonym net = "nat \<Rightarrow> request \<Rightarrow> rat \<times> http_outcome"

record world =
  clock :: rat
  sent :: "request list"
  files :: "(string \<times> pyval) list"
  dirs :: "string list"
  stdout :: "string list"

definition sleep :: "rat \<Rightarrow> world \<Rightarrow> world" where
  "sleep secs w = w\<lparr>clock := clock w + secs\<rparr>"

definition http_get :: "net \<Rightarrow> request \<Rightarrow> world \<Rightarrow> http_outcome \<times> world" where
  "http_get net rq w =
     (let (took, outcome) = net (length (sent w)) rq
      in (outcome, w\<lparr>clock := clock w + took, sent := sent w @ [rq]\<rparr>))"

section \<open>The block explorer client\<close>

definition DEFAULT_CURRENCY :: string where
  "DEFAULT_CURRENCY = ''ETH''"

definition MINER :: string where
  "MINER = ''0xffffffffffffffffffffffffffffffffffffffff''"

definition WEI :: int where
  "WEI = 10 ^ 18"

definition NO_TRANSACTIONS :: "string list" where
  "NO_TRANSACTIONS =
     [''No transactions found'',
      ''No internal transactions found'',
      ''No token transfers found'']"

record BlockExplorerApi =
  api_url :: string
  api_key :: string
  delay :: rat
  last_request_timestamp :: rat
  base_currency :: string

definition USER_AGENT :: "string \<times> string" where
  "USER_AGENT = (''User-Agent'', ''Mozilla/4.0 (compatible; MSIE 6.0; Windows NT 5.1; SV1)'')"

definition BlockExplorerApi_init :: "string \<Rightarrow> string \<Rightarrow> rat \<Rightarrow> string \<Rightarrow> BlockExplorerApi" where
  "BlockExplorerApi_init url key d currency =
     \<lparr>api_url = url, api_key = key, delay = d, last_request_timestamp = 0,
      base_currency = currency\<rparr>"

text \<open>
  A method of the client returns its result or the exception it raises, the client
  (whose \<open>_last_request_timestamp\<close> it may have set) and the world.
\<close>

type_synonym 'a run = "'a result \<times> BlockExplorerApi \<times> world"

text \<open>
  \<open>api_response\<close> is the rest of the \<open>try\<close> block of \<open>_make_api_request\<close> once the
  body is decoded and the timestamp is set: the test of \<open>status\<close> and \<open>message\<close>,
  with \<open>or\<close> reading \<open>message\<close> only when the status is not 1.
\<close>

definition api_response :: "pyval \<Rightarrow> pyval result" where
  "api_response data =
     pbind (py_getitem data ''status'') (\<lambda>status.
     pbind (py_int status) (\<lambda>n.
       if n = 1 then py_getitem data ''result''
       else
         pbind (py_getitem data ''message'') (\<lambda>message.
           if message \<in> set (map PStr NO_TRANSACTIONS) then py_getitem data ''result''
           else Inl (RuntimeError (ApiError message)))))"

text \<open>The GET request of \<open>_make_api_request\<close>: the URL, the \<open>params\<close> and the header of the session.\<close>

definition api_request :: "BlockExplorerApi \<Rightarrow> string \<Rightarrow> string \<Rightarrow> request" where
  "api_request self address action =
     (let params = [(''module'', ''account''), (''action'', action), (''address'', address),
                    (''sort'', ''asc''), (''apikey'', api_key self)]
      in \<lparr>req_url = api_url self, req_params = params, req_headers = [USER_AGENT],
          req_auth = None\<rparr>)"

definition make_api_request ::
  "net \<Rightarrow> BlockExplorerApi \<Rightarrow> string \<Rightarrow> string \<Rightarrow> world \<Rightarrow> pyval run" where
  "make_api_request net self address action w =
     (let last_request_delta = clock w - last_request_timestamp self;
          w1 = (if last_request_delta < delay self
                then sleep (delay self - last_request_delta) w else w);
          (response, w2) = http_get net (api_request self address action) w1
      in case response of
           ConnectionFailed err \<Rightarrow>
             (Inl (RuntimeError (AnErrorOccurred (RequestException err))), self, w2)
         | StatusError http_err \<Rightarrow>
             (Inl (RuntimeError (HttpErrorOccurred http_err)), self, w2)
         | InvalidJson err \<Rightarrow>
             (Inl (RuntimeError (AnErrorOccurred (RequestException err))), self, w2)
         | Json data \<Rightarrow>
             (let self' = self\<lparr>last_request_timestamp := clock w2\<rparr>
              in case api_response data of
                   Inl err \<Rightarrow> (Inl (RuntimeError (AnErrorOccurred err)), self', w2)
                 | Inr result \<Rightarrow> (Inr result, self', w2)))"

subsection \<open>The text of an exception\<close>

text \<open>
  \<open>str(err)\<close>, where this development knows it: the three messages the downloader
  formats itself, the library texts that the network hands over, and a \<open>KeyError\<close>
  for a plain key. \<open>None\<close> is "not described here" (the wording of Python's own
  \<open>TypeError\<close>s and \<open>ValueError\<close>s, the \<open>repr\<close> of a number or a container).
\<close>

definition str_of_pyval :: "pyval \<Rightarrow> string option" where
  "str_of_pyval v =
     (case v of
        PStr s \<Rightarrow> Some s
      | PNone \<Rightarrow> Some ''None''
      | PBool b \<Rightarrow> Some (if b then ''True'' else ''False'')
      | _ \<Rightarrow> None)"

definition plain_char :: "char \<Rightarrow> bool" where
  "plain_char c =
     (let n = (of_char c :: nat) in 32 \<le> n \<and> n \<le> 126 \<and> n \<noteq> 39 \<and> n \<noteq> 92)"

fun exc_text :: "pyexc \<Rightarrow> string option"
  and rt_text :: "rt_message \<Rightarrow> string option" where
  "exc_text (RuntimeError m) = rt_text m"
| "exc_text (RequestException s) = Some s"
| "exc_text (KeyError k) =
     (if list_all plain_char k then Some ([char_of (39 :: nat)] @ k @ [char_of (39 :: nat)])
      else None)"
| "exc_text TypeError = None"
| "exc_text ValueError = None"
| "exc_text AttributeError = None"
| "exc_text OverflowError = None"
| "exc_text (DecimalException s) = None"
| "exc_text NotModelled = None"
| "rt_text (ApiError v) = map_option (\<lambda>s. ''API Error: '' @ s) (str_of_pyval v)"
| "rt_text (HttpErrorOccurred s) = Some (''HTTP error occurred: '' @ s)"
| "rt_text (AnErrorOccurred e) = map_option (\<lambda>s. ''An error occurred: '' @ s) (exc_text e)"

section \<open>Decimal arithmetic\<close>

text \<open>
  The operations of \<open>decimal.Decimal\<close> that the downloader uses, in the default
  context: 28 significant digits, rounding half to even, exponents between
  \<open>Emin\<close> and \<open>Emax\<close>, and the signals \<open>InvalidOperation\<close>,
  \<open>DivisionByZero\<close> and \<open>Overflow\<close> raised as exceptions. Every operation ends
  in \<open>dec_fix\<close>, which rounds a result that has more than 28 digits. The
  definitions follow the reference implementation of the \<open>decimal\<close> module.
\<close>

definition prec :: nat where
  "prec = 28"

definition Emax :: int where
  "Emax = 999999"

definition Emin :: int where
  "Emin = - 999999"

definition Etiny :: int where
  "Etiny = Emin - int prec + 1"

definition Etop :: int where
  "Etop = Emax - int prec + 1"

text \<open>The number of decimal digits of a coefficient: \<open>len(str(n))\<close>.\<close>

fun len10 :: "nat \<Rightarrow> nat" where
  "len10 n = (if n < 10 then 1 else Suc (len10 (n div 10)))"

declare len10.simps [simp del]

text \<open>
  Whether dropping the last \<open>k\<close> digits of \<open>c\<close> rounds the rest up: the dropped
  part is more than half a unit, or exactly half and the kept part is odd.
\<close>

definition rounds_up :: "nat \<Rightarrow> nat \<Rightarrow> bool" where
  "rounds_up c k =
     (let rest = c mod 10 ^ k; half = 5 * 10 ^ (k - 1)
      in half < rest \<or> (rest = half \<and> odd (c div 10 ^ k)))"

definition dec_fix :: "decimal \<Rightarrow> decimal result" where
  "dec_fix d =
     (let s = dec_sign d; c = dec_int d; e = dec_exp d
      in if c = 0 then Inr (Decimal s 0 (min (max e Etiny) Emax))
         else
           let exp_min0 = int (len10 c) + e - int prec
           in if Etop < exp_min0 then Inl (DecimalException Overflow)
              else
                let exp_min = max exp_min0 Etiny
                in if e < exp_min then
                     let digits0 = int (len10 c) + e - exp_min;
                         c1 = (if digits0 < 0 then 1 else c);
                         digits = (if digits0 < 0 then 0 else nat digits0);
                         k = len10 c1 - digits;
                         kept = c1 div 10 ^ k;
                         coeff = (if rounds_up c1 k then kept + 1 else kept);
                         carry = (rounds_up c1 k \<and> prec < len10 coeff);
                         coeff' = (if carry then coeff div 10 else coeff);
                         exp_min' = (if carry then exp_min + 1 else exp_min)
                     in if Etop < exp_min' then Inl (DecimalException Overflow)
                        else Inr (Decimal s coeff' exp_min')
                   else Inr d)"

definition dec_mul :: "decimal \<Rightarrow> decimal \<Rightarrow> decimal result" where
  "dec_mul a b =
     dec_fix (Decimal (dec_sign a \<noteq> dec_sign b) (dec_int a * dec_int b) (dec_exp a + dec_exp b))"

text \<open>
  The loop of the division for an exact quotient: drop trailing zeros of the coefficient
  while the exponent is below the ideal one.
\<close>

function strip_zeros :: "nat \<Rightarrow> int \<Rightarrow> int \<Rightarrow> nat \<times> int" where
  "strip_zeros coeff expo ideal_exp =
     (if expo < ideal_exp \<and> coeff mod 10 = 0
      then strip_zeros (coeff div 10) (expo + 1) ideal_exp
      else (coeff, expo))"
  by pat_completeness auto
termination
  by (relation "measure (\<lambda>(coeff, expo, ideal_exp). nat (ideal_exp - expo))") auto

declare strip_zeros.simps [simp del]

definition dec_truediv :: "decimal \<Rightarrow> decimal \<Rightarrow> decimal result" where
  "dec_truediv a b =
     (let sign = (dec_sign a \<noteq> dec_sign b)
      in if dec_int b = 0 then
           (if dec_int a = 0 then Inl (DecimalException InvalidOperation)
            else Inl (DecimalException DivisionByZero))
         else if dec_int a = 0 then dec_fix (Decimal sign 0 (dec_exp a - dec_exp b))
         else
           let shift = int (len10 (dec_int b)) - int (len10 (dec_int a)) + int prec + 1;
               expo = dec_exp a - dec_exp b - shift;
               num = (if 0 \<le> shift then dec_int a * 10 ^ nat shift else dec_int a);
               den = (if 0 \<le> shift then dec_int b else dec_int b * 10 ^ nat (- shift));
               coeff = num div den;
               remainder = num mod den
           in if remainder \<noteq> 0
              then dec_fix (Decimal sign (if coeff mod 5 = 0 then coeff + 1 else coeff) expo)
              else
                let (coeff', expo') = strip_zeros coeff expo (dec_exp a - dec_exp b)
                in dec_fix (Decimal sign coeff' expo'))"

subsection \<open>\<open>Decimal(v)\<close>\<close>

text \<open>
  A string is stripped of whitespace and of every underscore; then come an optional
  sign, digits with an optional fraction (at least one digit in all) and an optional
  exponent. The construction is exact. The strings for infinities and NaNs are valid in
  Python and not described here, nor is the reading of a three-element list as a
  (sign, digits, exponent) triple.
\<close>

definition special_literal :: "string \<Rightarrow> bool" where
  "special_literal s =
     (s = ''inf'' \<or> s = ''infinity''
      \<or> (take 3 s = ''nan'' \<and> list_all is_digit (drop 3 s))
      \<or> (take 4 s = ''snan'' \<and> list_all is_digit (drop 4 s)))"

definition exponent_part :: "string \<Rightarrow> int option" where
  "exponent_part s =
     (if s = [] then Some 0
      else if hd s = CHR ''e'' \<or> hd s = CHR ''E'' then
        (let r = tl s;
             neg = (r \<noteq> [] \<and> hd r = CHR ''-'');
             ds = (if r \<noteq> [] \<and> (hd r = CHR ''-'' \<or> hd r = CHR ''+'') then tl r else r)
         in if ds \<noteq> [] \<and> list_all is_digit ds then Some (signed neg (nat_of_digits ds))
            else None)
      else None)"

definition decimal_of_str :: "string \<Rightarrow> decimal result" where
  "decimal_of_str s =
     (let t = filter (\<lambda>c. c \<noteq> CHR ''_'') (strip s);
          neg = (t \<noteq> [] \<and> hd t = CHR ''-'');
          body = (if t \<noteq> [] \<and> (hd t = CHR ''-'' \<or> hd t = CHR ''+'') then tl t else t)
      in if special_literal (lower body) then Inl NotModelled
         else
           let intpart = takeWhile is_digit body;
               r1 = dropWhile is_digit body;
               dot = (r1 \<noteq> [] \<and> hd r1 = CHR ''.'');
               fracpart = (if dot then takeWhile is_digit (tl r1) else []);
               r2 = (if dot then dropWhile is_digit (tl r1) else r1)
           in if intpart = [] \<and> fracpart = [] then Inl (DecimalException InvalidOperation)
              else
                (case exponent_part r2 of
                   None \<Rightarrow> Inl (DecimalException InvalidOperation)
                 | Some ex \<Rightarrow>
                     Inr (Decimal neg (nat_of_digits (intpart @ fracpart))
                            (ex - int (length fracpart)))))"

text \<open>The lowest terms of \<open>m / 2 ^ k\<close>, for the exact conversion of a float.\<close>

fun reduce2 :: "nat \<Rightarrow> nat \<Rightarrow> nat \<times> nat" where
  "reduce2 m 0 = (m, 0)"
| "reduce2 m (Suc k) = (if even m then reduce2 (m div 2) k else (m, Suc k))"

fun py_decimal :: "pyval \<Rightarrow> decimal result" where
  "py_decimal (PStr s) = decimal_of_str s"
| "py_decimal (PInt n) = Inr (Decimal (n < 0) (nat \<bar>n\<bar>) 0)"
| "py_decimal (PBool b) = Inr (Decimal False (if b then 1 else 0) 0)"
| "py_decimal (PDec d) = Inr d"
| "py_decimal (PFloat (FloatVal s m e)) =
     (if m = 0 then Inr (Decimal s 0 0)
      else if 0 \<le> e then Inr (Decimal s (m * 2 ^ nat e) 0)
      else let (n, k) = reduce2 m (nat (- e)) in Inr (Decimal s (n * 5 ^ k) (- int k)))"
| "py_decimal (PFloat _) = Inl NotModelled"
| "py_decimal (PList xs) = Inl NotModelled"
| "py_decimal _ = Inl TypeError"

subsection \<open>Powers of ten\<close>

text \<open>
  \<open>10 ** x\<close> for a \<open>Decimal\<close> \<open>x\<close> (the divisor of a token amount). For an
  integral \<open>x\<close> the result is the power of ten, with at most 28 zeros in the
  coefficient; beyond the exponent range it overflows (raising) or underflows to zero.
  A fractional \<open>x\<close> is not described here.
\<close>

definition pow10 :: "decimal \<Rightarrow> decimal result" where
  "pow10 x =
     (let c = dec_int x; e = dec_exp x
      in if c = 0 then Inr (Decimal False 1 0)
         else if e < 0 \<and> c mod 10 ^ nat (- e) \<noteq> 0 then Inl NotModelled
         else
           let n = (if 0 \<le> e then c * 10 ^ nat e else c div 10 ^ nat (- e))
           in if dec_sign x then
                (if 10 ^ 7 \<le> n then dec_fix (Decimal False 1 (Etiny - 1))
                 else dec_fix (Decimal False 1 (- int n)))
              else
                (if 10 ^ 6 \<le> n then dec_fix (Decimal False 1 (Emax + 1))
                 else let zeros = min n prec
                      in dec_fix (Decimal False (10 ^ zeros) (int n - int zeros))))"

text \<open>
  \<open>10 ** v\<close> for a decoded JSON value \<open>v\<close> (the divisor of an asset balance), as the
  \<open>Decimal\<close> that the division converts it to. A negative or a float \<open>v\<close> makes
  the power a float, which \<open>Decimal\<close> refuses to divide by; that float arithmetic
  is not described here.
\<close>

fun int_pow10 :: "pyval \<Rightarrow> decimal result" where
  "int_pow10 (PInt n) = (if 0 \<le> n then Inr (Decimal False (10 ^ nat n) 0) else Inl NotModelled)"
| "int_pow10 (PBool b) = Inr (Decimal False (if b then 10 else 1) 0)"
| "int_pow10 (PFloat f) = Inl NotModelled"
| "int_pow10 (PDec d) = pow10 d"
| "int_pow10 _ = Inl TypeError"

text \<open>The number a finite \<open>Decimal\<close> stands for.\<close>

definition dec_val :: "decimal \<Rightarrow> rat" where
  "dec_val d =
     (if dec_sign d then - 1 else 1) * of_nat (dec_int d)
       * (if 0 \<le> dec_exp d then 10 ^ nat (dec_exp d) else 1 / 10 ^ nat (- dec_exp d))"

section \<open>Transactions\<close>

text \<open>
  A normalised record is the dictionary that the source builds, with its keys in the
  order of the literal and its entries evaluated in that order. \<open>for_each\<close> is
  the \<open>for\<close> loop over the items of a response: the body gets the item and the
  list built so far, and an exception in the body ends the loop.
\<close>

fun for_each :: "(pyval \<Rightarrow> 'a \<Rightarrow> 'a result) \<Rightarrow> pyval list \<Rightarrow> 'a \<Rightarrow> 'a result" where
  "for_each body [] acc = Inr acc"
| "for_each body (item # items) acc = pbind (body item acc) (for_each body items)"

definition dec_of_int :: "int \<Rightarrow> decimal" where
  "dec_of_int n = Decimal (n < 0) (nat \<bar>n\<bar>) 0"

text \<open>The body of the loop of \<open>get_normal_transactions\<close>.\<close>

definition normal_item :: "string \<Rightarrow> string \<Rightarrow> pyval \<Rightarrow> pyval list \<Rightarrow> pyval list result" where
  "normal_item currency address item transactions =
     pbind (py_getitem item ''isError'') (\<lambda>is_error.
     pbind (py_int is_error) (\<lambda>err.
     pbind
       (if err = 0 then
          pbind (py_getitem item ''hash'') (\<lambda>tx_id.
          pbind (py_getitem item ''timeStamp'') (\<lambda>ts.
          pbind (py_int ts) (\<lambda>time.
          pbind (py_getitem item ''from'') (\<lambda>sender.
          pbind (py_getitem item ''to'') (\<lambda>receiver.
          pbind (py_getitem item ''value'') (\<lambda>v.
          pbind (py_decimal v) (\<lambda>raw.
          pbind (dec_truediv raw (dec_of_int WEI)) (\<lambda>value.
            Inr (transactions @
                 [PDict [(''tx_id'', tx_id), (''time'', PInt time), (''from'', sender),
                         (''to'', receiver), (''currency'', PStr currency),
                         (''value'', PDec value)]])))))))))
        else Inr transactions) (\<lambda>transactions.
     pbind (py_getitem item ''from'') (\<lambda>sender.
     pbind (py_lower sender) (\<lambda>sender_lower.
       if sender_lower = lower address then
         pbind (py_getitem item ''hash'') (\<lambda>tx_id.
         pbind (py_getitem item ''timeStamp'') (\<lambda>ts.
         pbind (py_int ts) (\<lambda>time.
         pbind (py_getitem item ''from'') (\<lambda>sender.
         pbind (py_getitem item ''gasUsed'') (\<lambda>gu.
         pbind (py_decimal gu) (\<lambda>gas_used.
         pbind (py_getitem item ''gasPrice'') (\<lambda>gp.
         pbind (py_decimal gp) (\<lambda>gas_price.
         pbind (dec_mul gas_used gas_price) (\<lambda>gas.
         pbind (dec_truediv gas (dec_of_int WEI)) (\<lambda>value.
           Inr (transactions @
                [PDict [(''tx_id'', tx_id), (''time'', PInt time), (''from'', sender),
                        (''to'', PStr MINER), (''currency'', PStr currency),
                        (''value'', PDec value)]])))))))))))
       else Inr transactions)))))"

definition get_normal_transactions ::
  "net \<Rightarrow> BlockExplorerApi \<Rightarrow> string \<Rightarrow> world \<Rightarrow> pyval list run" where
  "get_normal_transactions net self address w =
     (case make_api_request net self address ''txlist'' w of
        (Inl e, self', w') \<Rightarrow> (Inl e, self', w')
      | (Inr result, self', w') \<Rightarrow>
          (pbind (py_iter result) (\<lambda>items.
             for_each (normal_item (base_currency self') address) items []), self', w'))"

text \<open>The body of the loop of \<open>get_internal_transactions\<close>.\<close>

definition internal_item :: "string \<Rightarrow> pyval \<Rightarrow> pyval list \<Rightarrow> pyval list result" where
  "internal_item currency item transactions =
     pbind (py_in ''hash'' item) (\<lambda>has_hash.
     pbind (py_getitem item (if has_hash then ''hash'' else ''transactionHash'')) (\<lambda>tx_id.
     pbind (py_getitem item ''timeStamp'') (\<lambda>ts.
     pbind (py_int ts) (\<lambda>time.
     pbind (py_getitem item ''from'') (\<lambda>sender.
     pbind (py_getitem item ''to'') (\<lambda>receiver.
     pbind (py_getitem item ''value'') (\<lambda>v.
     pbind (py_decimal v) (\<lambda>raw.
     pbind (dec_truediv raw (dec_of_int WEI)) (\<lambda>value.
       Inr (transactions @
            [PDict [(''tx_id'', tx_id), (''time'', PInt time), (''from'', sender),
                    (''to'', receiver), (''currency'', PStr currency),
                    (''value'', PDec value)]]))))))))))"

definition get_internal_transactions ::
  "net \<Rightarrow> BlockExplorerApi \<Rightarrow> string \<Rightarrow> world \<Rightarrow> pyval list run" where
  "get_internal_transactions net self address w =
     (case make_api_request net self address ''txlistinternal'' w of
        (Inl e, self', w') \<Rightarrow> (Inl e, self', w')
      | (Inr result, self', w') \<Rightarrow>
          (pbind (py_iter result) (\<lambda>items.
             for_each (internal_item (base_currency self')) items []), self', w'))"

text \<open>The body of the loop of \<open>get_erc20_transfers\<close>; \<open>continue\<close> leaves the list as it is.\<close>

definition erc20_item :: "pyval \<Rightarrow> pyval list \<Rightarrow> pyval list result" where
  "erc20_item item transactions =
     pbind (py_getitem item ''tokenDecimal'') (\<lambda>token_decimal.
       if token_decimal = PStr [] then Inr transactions
       else
         pbind (py_getitem item ''hash'') (\<lambda>tx_id.
         pbind (py_getitem item ''timeStamp'') (\<lambda>ts.
         pbind (py_int ts) (\<lambda>time.
         pbind (py_getitem item ''from'') (\<lambda>sender.
         pbind (py_getitem item ''to'') (\<lambda>receiver.
         pbind (py_getitem item ''tokenSymbol'') (\<lambda>symbol.
         pbind (py_getitem item ''value'') (\<lambda>v.
         pbind (py_decimal v) (\<lambda>raw.
         pbind (py_getitem item ''tokenDecimal'') (\<lambda>td.
         pbind (py_decimal td) (\<lambda>decimals.
         pbind (pow10 decimals) (\<lambda>divisor.
         pbind (dec_truediv raw divisor) (\<lambda>value.
         pbind (py_getitem item ''contractAddress'') (\<lambda>contract.
           Inr (transactions @
                [PDict [(''tx_id'', tx_id), (''time'', PInt time), (''from'', sender),
                        (''to'', receiver), (''currency'', symbol), (''value'', PDec value),
                        (''contract'', contract)]])))))))))))))))"

definition get_erc20_transfers ::
  "net \<Rightarrow> BlockExplorerApi \<Rightarrow> string \<Rightarrow> world \<Rightarrow> pyval list run" where
  "get_erc20_transfers net self address w =
     (case make_api_request net self address ''tokentx'' w of
        (Inl e, self', w') \<Rightarrow> (Inl e, self', w')
      | (Inr result, self', w') \<Rightarrow>
          (pbind (py_iter result) (\<lambda>items. for_each erc20_item items []), self', w'))"

text \<open>
  \<open>int(datetime.datetime.now().timestamp())\<close>: the clock reading, truncated towards
  zero. The dictionary literal reads the clock before the request is sent.
\<close>

definition trunc :: "rat \<Rightarrow> int" where
  "trunc q = (if q < 0 then - \<lfloor>- q\<rfloor> else \<lfloor>q\<rfloor>)"

definition get_base_currency_balances ::
  "net \<Rightarrow> BlockExplorerApi \<Rightarrow> string \<Rightarrow> world \<Rightarrow> pyval list run" where
  "get_base_currency_balances net self address w =
     (let now = trunc (clock w)
      in case make_api_request net self address ''balance'' w of
           (Inl e, self', w') \<Rightarrow> (Inl e, self', w')
         | (Inr result, self', w') \<Rightarrow>
             (pbind (py_decimal result) (\<lambda>raw.
              pbind (dec_truediv raw (dec_of_int WEI)) (\<lambda>balance.
                Inr [PDict [(''time'', PInt now), (''address'', PStr (lower address)),
                            (''currency'', PStr (base_currency self')),
                            (''balance'', PDec balance)]])), self', w'))"

section \<open>Dates\<close>

text \<open>
  \<open>datetime.strptime\<close> with the format \<open>%Y-%m-%dT%H:%M:%S.%f\<close>. The format
  is a list of directives; a numeric directive reads the digits up to the next literal
  and accepts what the directive's pattern in the library accepts (a month or a day
  may have one digit, a day may be a space and a digit, a fraction has one to six
  digits and is padded with zeros to microseconds); letters match in either case. The
  date must exist and the second must be below 60, or the constructor of \<open>datetime\<close>
  raises \<open>ValueError\<close>.
\<close>

datatype directive = Year | Month | Day | Hour | Minute | Second | Fraction | Literal char

definition FORMAT :: "directive list" where
  "FORMAT =
     [Year, Literal CHR ''-'', Month, Literal CHR ''-'', Day, Literal CHR ''T'',
      Hour, Literal CHR '':'', Minute, Literal CHR '':'', Second, Literal CHR ''.'', Fraction]"

fun field_ok :: "directive \<Rightarrow> string \<Rightarrow> bool" where
  "field_ok Year ds = (length ds = 4)"
| "field_ok Month ds =
     ((length ds = 2 \<and> 1 \<le> nat_of_digits ds \<and> nat_of_digits ds \<le> 12)
      \<or> (length ds = 1 \<and> 1 \<le> nat_of_digits ds))"
| "field_ok Day ds =
     ((length ds = 2 \<and> 1 \<le> nat_of_digits ds \<and> nat_of_digits ds \<le> 31)
      \<or> (length ds = 1 \<and> 1 \<le> nat_of_digits ds))"
| "field_ok Hour ds = ((length ds = 2 \<and> nat_of_digits ds \<le> 23) \<or> length ds = 1)"
| "field_ok Minute ds = ((length ds = 2 \<and> nat_of_digits ds \<le> 59) \<or> length ds = 1)"
| "field_ok Second ds = ((length ds = 2 \<and> nat_of_digits ds \<le> 61) \<or> length ds = 1)"
| "field_ok Fraction ds = (1 \<le> length ds \<and> length ds \<le> 6)"
| "field_ok (Literal c) ds = False"

definition field_val :: "directive \<Rightarrow> string \<Rightarrow> nat" where
  "field_val dir ds =
     (if dir = Fraction then nat_of_digits ds * 10 ^ (6 - length ds) else nat_of_digits ds)"

fun parse_format :: "directive list \<Rightarrow> string \<Rightarrow> nat list option" where
  "parse_format [] s = (if s = [] then Some [] else None)"
| "parse_format (Literal c # fmt) s =
     (if s \<noteq> [] \<and> lower_char (hd s) = lower_char c then parse_format fmt (tl s) else None)"
| "parse_format (dir # fmt) s =
     (let spaced = (dir = Day \<and> s \<noteq> [] \<and> hd s = CHR '' '');
          s' = (if spaced then tl s else s);
          ds = takeWhile is_digit s'
      in if field_ok dir ds \<and> (spaced \<longrightarrow> length ds = 1)
         then map_option (\<lambda>vs. field_val dir ds # vs) (parse_format fmt (dropWhile is_digit s'))
         else None)"

record datetime =
  year :: nat
  month :: nat
  day :: nat
  hour :: nat
  minute :: nat
  second :: nat
  microsecond :: nat

definition is_leap :: "nat \<Rightarrow> bool" where
  "is_leap y = (y mod 4 = 0 \<and> (y mod 100 \<noteq> 0 \<or> y mod 400 = 0))"

definition days_in_month :: "nat \<Rightarrow> nat \<Rightarrow> nat" where
  "days_in_month y m =
     (if m = 2 \<and> is_leap y then 29 else [31, 28, 31, 30, 31, 30, 31, 31, 30, 31, 30, 31] ! (m - 1))"

definition strptime :: "string \<Rightarrow> datetime result" where
  "strptime s =
     (case parse_format FORMAT s of
        Some [y, m, d, H, M, S, f] \<Rightarrow>
          if 1 \<le> y \<and> d \<le> days_in_month y m \<and> S \<le> 59
          then Inr \<lparr>year = y, month = m, day = d, hour = H, minute = M, second = S,
                    microsecond = f\<rparr>
          else Inl ValueError
      | _ \<Rightarrow> Inl ValueError)"

fun py_strptime :: "pyval \<Rightarrow> datetime result" where
  "py_strptime (PStr s) = strptime s"
| "py_strptime _ = Inl TypeError"

text \<open>\<open>v[:n]\<close>.\<close>

fun py_slice :: "nat \<Rightarrow> pyval \<Rightarrow> pyval result" where
  "py_slice n (PStr s) = Inr (PStr (take n s))"
| "py_slice n (PList xs) = Inr (PList (take n xs))"
| "py_slice n _ = Inl TypeError"

text \<open>
  \<open>int(dt.timestamp())\<close> for \<open>dt\<close> in UTC. The library counts the microseconds
  since 1970-01-01 as an integer, divides by \<open>10 ** 6\<close> into a float (the
  quotient rounded to the nearest double, ties to even) and \<open>int\<close> truncates that
  towards zero. \<open>utc_microseconds\<close> is the count, \<open>seconds_of_microseconds\<close> the
  division and the truncation: below one second the result is 0; from one second on the
  double has 53 bits, the first of them at \<open>2 ^ log2n\<close> of the whole seconds.
\<close>

definition days_before_year :: "nat \<Rightarrow> nat" where
  "days_before_year y =
     (let y1 = y - 1 in y1 * 365 + y1 div 4 - y1 div 100 + y1 div 400)"

definition days_before_month :: "nat \<Rightarrow> nat \<Rightarrow> nat" where
  "days_before_month y m = sum_list (map (days_in_month y) [1..<m])"

definition ymd2ord :: "nat \<Rightarrow> nat \<Rightarrow> nat \<Rightarrow> nat" where
  "ymd2ord y m d = days_before_year y + days_before_month y m + d"

definition utc_microseconds :: "datetime \<Rightarrow> int" where
  "utc_microseconds dt =
     ((int (ymd2ord (year dt) (month dt) (day dt)) - int (ymd2ord 1970 1 1)) * 86400
        + int (hour dt) * 3600 + int (minute dt) * 60 + int (second dt)) * 10 ^ 6
     + int (microsecond dt)"

fun log2n :: "nat \<Rightarrow> nat" where
  "log2n n = (if n < 2 then 0 else Suc (log2n (n div 2)))"

declare log2n.simps [simp del]

definition round_half_even :: "rat \<Rightarrow> int" where
  "round_half_even q =
     (let fl = \<lfloor>q\<rfloor>; r = q - of_int fl
      in if r < 1 / 2 then fl
         else if 1 / 2 < r then fl + 1
         else if even fl then fl else fl + 1)"

definition seconds_of_microseconds :: "int \<Rightarrow> int" where
  "seconds_of_microseconds n =
     (let a = nat \<bar>n\<bar>
      in if a < 10 ^ 6 then 0
         else
           let e = log2n (a div 10 ^ 6);
               ulp = (if 52 \<le> e then 2 ^ (e - 52) else 1 / 2 ^ (52 - e)) :: rat;
               mantissa = round_half_even (of_nat a / 10 ^ 6 / ulp);
               seconds = \<lfloor>of_int mantissa * ulp\<rfloor>
           in if n < 0 then - seconds else seconds)"

definition utc_timestamp :: "datetime \<Rightarrow> int" where
  "utc_timestamp dt = seconds_of_microseconds (utc_microseconds dt)"

section \<open>The wallet client\<close>

text \<open>
  The URL of the client is a template with one placeholder for the address, kept as the
  text before and after the placeholder; the network identifier is taken to contain no
  braces, so that \<open>format\<close> fills exactly that placeholder.
\<close>

record WalletApi =
  url_template :: "string \<times> string"
  auth :: "string \<times> string"

definition WalletApi_init :: "string \<Rightarrow> string \<Rightarrow> WalletApi" where
  "WalletApi_init network key =
     \<lparr>url_template = (''https://api.covalenthq.com/v1/'' @ network @ ''/address/'',
                       ''/balances_v2/?no-spam=true''),
      auth = (key, [])\<rparr>"

text \<open>The rest of the \<open>try\<close> block of \<open>get_asset_balances\<close> once the body is decoded.\<close>

definition wallet_response :: "pyval \<Rightarrow> pyval result" where
  "wallet_response r =
     pbind (py_getitem r ''error'') (\<lambda>error.
       if py_bool error
       then pbind (py_getitem r ''error_message'') (\<lambda>m. Inl (RuntimeError (ApiError m)))
       else py_getitem r ''data'')"

text \<open>
  \<open>isinstance(q, (int, float)) and q > 0\<close>. A Python \<open>bool\<close> is an \<open>int\<close>:
  \<open>True\<close> counts as 1.
\<close>

fun is_number :: "pyval \<Rightarrow> bool" where
  "is_number (PInt n) = True"
| "is_number (PBool b) = True"
| "is_number (PFloat f) = True"
| "is_number _ = False"

fun positive :: "pyval \<Rightarrow> bool" where
  "positive (PInt n) = (0 < n)"
| "positive (PBool b) = b"
| "positive (PFloat (FloatVal s m e)) = (\<not> s \<and> 0 < m)"
| "positive (PFloat (FloatInf s)) = (\<not> s)"
| "positive _ = False"

text \<open>The list comprehension \<open>valid_assets\<close>, one item at a time.\<close>

definition valid_asset :: "pyval \<Rightarrow> pyval list \<Rightarrow> pyval list result" where
  "valid_asset i valid_assets =
     pbind (py_getitem i ''quote'') (\<lambda>quote.
       if is_number quote \<and> positive quote then Inr (valid_assets @ [i])
       else Inr valid_assets)"

text \<open>The body of the loop over \<open>valid_assets\<close>.\<close>

definition asset_item :: "int \<Rightarrow> string \<Rightarrow> pyval \<Rightarrow> pyval list \<Rightarrow> pyval list result" where
  "asset_item timestamp address i balances =
     pbind (py_getitem i ''contract_ticker_symbol'') (\<lambda>symbol.
     pbind (py_getitem i ''contract_address'') (\<lambda>contract.
     pbind (py_getitem i ''balance'') (\<lambda>b.
     pbind (py_decimal b) (\<lambda>raw.
     pbind (py_getitem i ''contract_decimals'') (\<lambda>decimals.
     pbind (int_pow10 decimals) (\<lambda>divisor.
     pbind (dec_truediv raw divisor) (\<lambda>balance.
     pbind (py_getitem i ''quote_rate'') (\<lambda>rate.
       Inr (balances @
            [PDict [(''time'', PInt timestamp), (''address'', PStr (lower address)),
                    (''currency'', symbol), (''contract'', contract),
                    (''balance'', PDec balance), (''rate'', rate)]])))))))))"

text \<open>What \<open>get_asset_balances\<close> does with the decoded \<open>data\<close>, after the \<open>try\<close> block.\<close>

definition asset_balances :: "pyval \<Rightarrow> string \<Rightarrow> pyval list result" where
  "asset_balances data address =
     pbind (py_getitem data ''updated_at'') (\<lambda>updated_at.
     pbind (py_slice 23 updated_at) (\<lambda>time_str_trimmed.
     pbind (py_strptime time_str_trimmed) (\<lambda>dt.
     pbind (py_getitem data ''items'') (\<lambda>items.
     pbind (py_iter items) (\<lambda>is.
     pbind (for_each valid_asset is []) (\<lambda>valid_assets.
       for_each (asset_item (utc_timestamp dt) address) valid_assets []))))))"

text \<open>The GET request of \<open>get_asset_balances\<close>: the formatted URL, the header and the credentials.\<close>

definition wallet_request :: "WalletApi \<Rightarrow> string \<Rightarrow> request" where
  "wallet_request self address =
     (let url = fst (url_template self) @ address @ snd (url_template self)
      in \<lparr>req_url = url, req_params = [],
          req_headers = [(''Content-Type'', ''application/json'')],
          req_auth = Some (auth self)\<rparr>)"

definition get_asset_balances ::
  "net \<Rightarrow> WalletApi \<Rightarrow> string \<Rightarrow> world \<Rightarrow> pyval list result \<times> world" where
  "get_asset_balances net self address w =
     (let (response, w') = http_get net (wallet_request self address) w
      in case response of
           ConnectionFailed err \<Rightarrow>
             (Inl (RuntimeError (AnErrorOccurred (RequestException err))), w')
         | StatusError http_err \<Rightarrow> (Inl (RuntimeError (HttpErrorOccurred http_err)), w')
         | InvalidJson err \<Rightarrow>
             (Inl (RuntimeError (AnErrorOccurred (RequestException err))), w')
         | Json r \<Rightarrow>
             (case wallet_response r of
                Inl err \<Rightarrow> (Inl (RuntimeError (AnErrorOccurred err)), w')
              | Inr data \<Rightarrow> (asset_balances data address, w')))"

section \<open>The download\<close>

text \<open>
  The configuration is a dictionary with known keys; each field below is the entry of
  the key of the same name without the prefix, \<open>None\<close> when the key is absent.
  \<open>config[k]\<close> raises \<open>KeyError\<close> for an absent key, \<open>config.get\<close> has a
  default. Of \<open>account_map\<close> only the keys are read, in their order.
\<close>

record config =
  cfg_name :: "string option"
  cfg_account_map :: "(string \<times> pyval) list option"
  cfg_block_explorer_api_url :: "string option"
  cfg_block_explorer_api_key :: "string option"
  cfg_block_explorer_api_request_delay :: "rat option"
  cfg_base_currency :: "string option"
  cfg_covalent_network :: "string option"
  cfg_covalent_api_key :: "string option"

definition require :: "string \<Rightarrow> 'a option \<Rightarrow> 'a result" where
  "require k v = (case v of None \<Rightarrow> Inl (KeyError k) | Some x \<Rightarrow> Inr x)"

definition get_or :: "'a option \<Rightarrow> 'a \<Rightarrow> 'a" where
  "get_or v dflt = (case v of None \<Rightarrow> dflt | Some x \<Rightarrow> x)"

text \<open>
  The file system keeps, for a path, the value last dumped to it; the newest entry comes
  first. A write or a \<open>makedirs\<close> does not fail here.
\<close>

definition makedirs :: "string \<Rightarrow> world \<Rightarrow> world" where
  "makedirs d w = w\<lparr>dirs := List.insert d (dirs w)\<rparr>"

definition path_join :: "string \<Rightarrow> string \<Rightarrow> string" where
  "path_join a b =
     (if b \<noteq> [] \<and> hd b = CHR ''/'' then b
      else if a = [] \<or> last a = CHR ''/'' then a @ b
      else a @ ''/'' @ b)"

definition json_dump :: "pyval \<Rightarrow> string \<Rightarrow> world \<Rightarrow> world" where
  "json_dump v path w = w\<lparr>files := (path, v) # files w\<rparr>"

definition py_print :: "string \<Rightarrow> world \<Rightarrow> world" where
  "py_print line w = w\<lparr>stdout := stdout w @ [line]\<rparr>"

text \<open>
  The loop of \<open>download\<close> over the addresses: four fetches for an address, each
  appended to its list; the first exception ends the loop.
\<close>

fun download_loop ::
  "net \<Rightarrow> WalletApi \<Rightarrow> string list \<Rightarrow> pyval list \<times> pyval list \<Rightarrow> BlockExplorerApi \<Rightarrow> world
     \<Rightarrow> (pyval list \<times> pyval list) run" where
  "download_loop net wallet_api [] acc api w = (Inr acc, api, w)"
| "download_loop net wallet_api (address # addresses) acc api w =
     (case get_normal_transactions net api address w of
        (Inl e, api1, w1) \<Rightarrow> (Inl e, api1, w1)
      | (Inr normal, api1, w1) \<Rightarrow>
     (case get_internal_transactions net api1 address w1 of
        (Inl e, api2, w2) \<Rightarrow> (Inl e, api2, w2)
      | (Inr internal, api2, w2) \<Rightarrow>
     (case get_erc20_transfers net api2 address w2 of
        (Inl e, api3, w3) \<Rightarrow> (Inl e, api3, w3)
      | (Inr erc20, api3, w3) \<Rightarrow>
     (case get_asset_balances net wallet_api address w3 of
        (Inl e, w4) \<Rightarrow> (Inl e, api3, w4)
      | (Inr assets, w4) \<Rightarrow>
          download_loop net wallet_api addresses
            (((fst acc @ normal) @ internal) @ erc20, snd acc @ assets) api3 w4))))"

definition read_config ::
  "config \<Rightarrow> (string \<times> string list \<times> BlockExplorerApi \<times> WalletApi) result" where
  "read_config config =
     pbind (require ''name'' (cfg_name config)) (\<lambda>name.
     pbind (require ''account_map'' (cfg_account_map config)) (\<lambda>account_map.
     pbind (require ''block_explorer_api_url'' (cfg_block_explorer_api_url config)) (\<lambda>url.
     pbind (require ''block_explorer_api_key'' (cfg_block_explorer_api_key config)) (\<lambda>key.
     pbind (require ''covalent_network'' (cfg_covalent_network config)) (\<lambda>network.
     pbind (require ''covalent_api_key'' (cfg_covalent_api_key config)) (\<lambda>covalent_key.
       Inr (name, map fst account_map,
            BlockExplorerApi_init url key
              (get_or (cfg_block_explorer_api_request_delay config) 0)
              (get_or (cfg_base_currency config) DEFAULT_CURRENCY),
            WalletApi_init network covalent_key)))))))"

definition download :: "net \<Rightarrow> config \<Rightarrow> string \<Rightarrow> world \<Rightarrow> unit result \<times> world" where
  "download net config output_dir w =
     (case read_config config of
        Inl e \<Rightarrow> (Inl e, w)
      | Inr (name, addresses, api, wallet_api) \<Rightarrow>
          (case download_loop net wallet_api addresses ([], []) api w of
             (Inl e, api', w') \<Rightarrow> (Inl e, w')
           | (Inr (transactions, balances), api', w') \<Rightarrow>
               (let w1 = makedirs output_dir w';
                    output_file_path = path_join output_dir (name @ ''.json'');
                    w2 = json_dump (PList transactions) output_file_path w1;
                    w3 = py_print (''Transactions saved to '' @ output_file_path) w2;
                    balances_file_path = path_join output_dir (name @ ''-balances.json'');
                    w4 = json_dump (PList balances) balances_file_path w3;
                    w5 = py_print (''Balances saved to '' @ balances_file_path) w4
                in (Inr (), w5))))"

section \<open>Example inputs\<close>

text \<open>
  A client for an explorer, a world at clock reading 100 with nothing sent or written,
  and a network whose every answer is the explorer's "no transactions" response.
\<close>

definition api0 :: BlockExplorerApi where
  "api0 = BlockExplorerApi_init ''https://api.etherscan.io/api'' ''KEY'' 0 ''ETH''"

definition world0 :: world where
  "world0 = \<lparr>clock = 100, sent = [], files = [], dirs = [], stdout = []\<rparr>"

definition net_empty :: net where
  "net_empty k rq =
     (1, Json (PDict [(''status'', PStr ''0''), (''message'', PStr ''No transactions found''),
                      (''result'', PList [])]))"

text \<open>
  A network whose every answer is a provider-reported error: for the explorer a status
  0 with the message \<open>NOTOK\<close>, for the wallet provider the error flag with a message.
\<close>

definition net_notok :: net where
  "net_notok k rq =
     (1, Json (PDict [(''status'', PStr ''0''), (''message'', PStr ''NOTOK''),
                      (''result'', PStr ''Invalid API Key''),
                      (''error'', PBool True), (''error_message'', PStr ''backend queue full'')]))"

text \<open>A network on which every connection fails.\<close>

definition net_down :: net where
  "net_down k rq = (1, ConnectionFailed ''connection refused'')"

definition wallet0 :: WalletApi where
  "wallet0 = WalletApi_init ''eth-mainnet'' ''CKEY''"

section \<open>Basic facts\<close>

lemma pbind_Inl [simp]: "pbind (Inl e) f = Inl e"
  by (simp add: pbind_def)

lemma pbind_Inr [simp]: "pbind (Inr x) f = f x"
  by (simp add: pbind_def)

lemma pbind_eq_Inr: "pbind m f = Inr y \<longleftrightarrow> (\<exists>x. m = Inr x \<and> f x = Inr y)"
  by (cases m) simp_all

lemma sent_sleep [simp]: "sent (sleep d w) = sent w"
  by (simp add: sleep_def)

lemma int_of_str_0: "int_of_str ''0'' = Inr 0"
  by (simp add: int_of_str_def strip_def is_space_def is_digit_def nat_of_digits_def
      digit_val_def)

lemma py_int_0: "py_int (PStr ''0'') = Inr 0"
  by (simp add: int_of_str_0)

section \<open>The fetch primitive\<close>

lemma make_api_request_json:
  assumes "snd (net (length (sent w)) (api_request self address action)) = Json data"
  shows "fst (make_api_request net self address action w) =
           (case api_response data of
              Inl err \<Rightarrow> Inl (RuntimeError (AnErrorOccurred err))
            | Inr result \<Rightarrow> Inr result)"
  using assms
  by (auto simp: make_api_request_def http_get_def Let_def split: prod.splits sum.splits)

text \<open>
  C5. A decoded response whose status is not 1: when its message is one of the three
  phrases of \<open>NO_TRANSACTIONS\<close>, \<open>_make_api_request\<close> returns the response's
  \<open>result\<close> and raises nothing; with any other message it raises the
  \<open>RuntimeError\<close> built from the API error that carries the provider's message.
\<close>

theorem fetch_known_empty_message:
  assumes "snd (net (length (sent w)) (api_request self address action)) = Json data"
    and "py_getitem data ''status'' = Inr status"
    and "py_int status = Inr n"
    and "n \<noteq> 1"
    and "py_getitem data ''message'' = Inr message"
  shows "(message \<in> set (map PStr NO_TRANSACTIONS) \<longrightarrow>
            py_getitem data ''result'' = Inr result \<longrightarrow>
            fst (make_api_request net self address action w) = Inr result)
       \<and> (message \<notin> set (map PStr NO_TRANSACTIONS) \<longrightarrow>
            fst (make_api_request net self address action w) =
              Inl (RuntimeError (AnErrorOccurred (RuntimeError (ApiError message)))))"
  using assms
  by (simp add: make_api_request_json api_response_def)

theorem fetch_known_empty_message_witness:
  "fst (make_api_request net_empty api0 ''0xab'' ''txlist'' world0) = Inr (PList [])"
proof -
  let ?data = "PDict [(''status'', PStr ''0''), (''message'', PStr ''No transactions found''),
                      (''result'', PList [])]"
  have 1: "snd (net_empty (length (sent world0)) (api_request api0 ''0xab'' ''txlist''))
             = Json ?data"
    by (simp add: net_empty_def)
  have 2: "py_getitem ?data ''status'' = Inr (PStr ''0'')" by simp
  have 4: "(0::int) \<noteq> 1" by simp
  have 5: "py_getitem ?data ''message'' = Inr (PStr ''No transactions found'')" by simp
  have 6: "PStr ''No transactions found'' \<in> set (map PStr NO_TRANSACTIONS)"
    by (simp add: NO_TRANSACTIONS_def)
  have 7: "py_getitem ?data ''result'' = Inr (PList [])" by simp
  from fetch_known_empty_message
         [where net = net_empty and w = world0 and self = api0 and address = "''0xab''"
            and action = "''txlist''" and result = "PList []", OF 1 2 py_int_0 4 5] 6 7
  show ?thesis by blast
qed

lemma make_api_request_timestamp:
  assumes "snd (net (length (sent w)) (api_request self address action)) = Json data"
  shows "last_request_timestamp (fst (snd (make_api_request net self address action w))) =
           clock (snd (snd (make_api_request net self address action w)))"
  using assms
  by (auto simp: make_api_request_def http_get_def Let_def split: prod.splits sum.splits)

lemma make_api_request_no_json:
  assumes "\<forall>data. snd (net (length (sent w)) (api_request self address action)) \<noteq> Json data"
  shows "(\<exists>e. fst (make_api_request net self address action w) = Inl e)
       \<and> fst (snd (make_api_request net self address action w)) = self"
  using assms
  by (auto simp: make_api_request_def http_get_def Let_def
      split: prod.splits sum.splits http_outcome.splits)

lemma get_asset_balances_json:
  assumes "snd (net (length (sent w)) (wallet_request self address)) = Json r"
  shows "fst (get_asset_balances net self address w) =
           (case wallet_response r of
              Inl err \<Rightarrow> Inl (RuntimeError (AnErrorOccurred err))
            | Inr data \<Rightarrow> asset_balances data address)"
  using assms
  by (auto simp: get_asset_balances_def http_get_def Let_def split: prod.splits sum.splits)

text \<open>
  C10. A provider-reported application error reaches the caller doubly wrapped. In
  \<open>_make_api_request\<close> (status not 1, message \<open>m\<close> not a known phrase) and in
  \<open>get_asset_balances\<close> (error flag set, error message \<open>m\<close>) the exception raised
  is the \<open>RuntimeError\<close> of the generic handler around the \<open>RuntimeError\<close> of the
  API error, and its text is \<open>An error occurred: API Error: m\<close>, not
  \<open>API Error: m\<close>.
\<close>

theorem provider_error_doubly_wrapped:
  "(snd (net (length (sent w)) (api_request self address action)) = Json data \<longrightarrow>
    py_getitem data ''status'' = Inr status \<longrightarrow> py_int status = Inr n \<longrightarrow> n \<noteq> 1 \<longrightarrow>
    py_getitem data ''message'' = Inr (PStr m) \<longrightarrow> m \<notin> set NO_TRANSACTIONS \<longrightarrow>
      (\<exists>e. fst (make_api_request net self address action w) = Inl e
          \<and> e = RuntimeError (AnErrorOccurred (RuntimeError (ApiError (PStr m))))
          \<and> exc_text e = Some (''An error occurred: API Error: '' @ m)
          \<and> exc_text e \<noteq> Some (''API Error: '' @ m)))
   \<and> (snd (net (length (sent w)) (wallet_request wallet_api address)) = Json r \<longrightarrow>
    py_getitem r ''error'' = Inr flag \<longrightarrow> py_bool flag \<longrightarrow>
    py_getitem r ''error_message'' = Inr (PStr m) \<longrightarrow>
      (\<exists>e. fst (get_asset_balances net wallet_api address w) = Inl e
          \<and> e = RuntimeError (AnErrorOccurred (RuntimeError (ApiError (PStr m))))
          \<and> exc_text e = Some (''An error occurred: API Error: '' @ m)
          \<and> exc_text e \<noteq> Some (''API Error: '' @ m)))"
proof (intro conjI impI)
  assume "snd (net (length (sent w)) (api_request self address action)) = Json data"
    and "py_getitem data ''status'' = Inr status" and "py_int status = Inr n" and "n \<noteq> 1"
    and "py_getitem data ''message'' = Inr (PStr m)" and "m \<notin> set NO_TRANSACTIONS"
  then have "fst (make_api_request net self address action w) =
               Inl (RuntimeError (AnErrorOccurred (RuntimeError (ApiError (PStr m)))))"
    by (auto simp: make_api_request_json api_response_def)
  then show "\<exists>e. fst (make_api_request net self address action w) = Inl e
          \<and> e = RuntimeError (AnErrorOccurred (RuntimeError (ApiError (PStr m))))
          \<and> exc_text e = Some (''An error occurred: API Error: '' @ m)
          \<and> exc_text e \<noteq> Some (''API Error: '' @ m)"
    by (simp add: str_of_pyval_def)
next
  assume "snd (net (length (sent w)) (wallet_request wallet_api address)) = Json r"
    and "py_getitem r ''error'' = Inr flag" and "py_bool flag"
    and "py_getitem r ''error_message'' = Inr (PStr m)"
  then have "fst (get_asset_balances net wallet_api address w) =
               Inl (RuntimeError (AnErrorOccurred (RuntimeError (ApiError (PStr m)))))"
    by (simp add: get_asset_balances_json wallet_response_def)
  then show "\<exists>e. fst (get_asset_balances net wallet_api address w) = Inl e
          \<and> e = RuntimeError (AnErrorOccurred (RuntimeError (ApiError (PStr m))))
          \<and> exc_text e = Some (''An error occurred: API Error: '' @ m)
          \<and> exc_text e \<noteq> Some (''API Error: '' @ m)"
    by (simp add: str_of_pyval_def)
qed

theorem provider_error_doubly_wrapped_witness:
  "fst (make_api_request net_notok api0 ''0xab'' ''txlist'' world0) =
     Inl (RuntimeError (AnErrorOccurred (RuntimeError (ApiError (PStr ''NOTOK'')))))
   \<and> fst (get_asset_balances net_notok wallet0 ''0xab'' world0) =
     Inl (RuntimeError (AnErrorOccurred (RuntimeError (ApiError (PStr ''backend queue full'')))))"
proof -
  let ?data = "PDict [(''status'', PStr ''0''), (''message'', PStr ''NOTOK''),
                      (''result'', PStr ''Invalid API Key''),
                      (''error'', PBool True), (''error_message'', PStr ''backend queue full'')]"
  have a1: "snd (net_notok (length (sent world0)) (api_request api0 ''0xab'' ''txlist''))
             = Json ?data"
    by (simp add: net_notok_def)
  have a2: "py_getitem ?data ''status'' = Inr (PStr ''0'')" by simp
  have a4: "(0::int) \<noteq> 1" by simp
  have a5: "py_getitem ?data ''message'' = Inr (PStr ''NOTOK'')" by simp
  have a6: "''NOTOK'' \<notin> set NO_TRANSACTIONS" by (simp add: NO_TRANSACTIONS_def)
  have b1: "snd (net_notok (length (sent world0)) (wallet_request wallet0 ''0xab'')) = Json ?data"
    by (simp add: net_notok_def)
  have b2: "py_getitem ?data ''error'' = Inr (PBool True)" by simp
  have b3: "py_bool (PBool True)" by simp
  have b4: "py_getitem ?data ''error_message'' = Inr (PStr ''backend queue full'')" by simp
  note thm1 = provider_error_doubly_wrapped
         [where net = net_notok and w = world0 and self = api0 and address = "''0xab''"
            and action = "''txlist''" and data = ?data and status = "PStr ''0''" and n = 0
            and m = "''NOTOK''", THEN conjunct1, rule_format, OF a1 a2 py_int_0 a4 a5 a6]
  note thm2 = provider_error_doubly_wrapped
         [where net = net_notok and w = world0 and wallet_api = wallet0
            and address = "''0xab''" and r = ?data and flag = "PBool True"
            and m = "''backend queue full''", THEN conjunct2, rule_format, OF b1 b2 b3 b4]
  from thm1 thm2 show ?thesis by blast
qed

text \<open>
  C6, as the code has it. The timestamp is set as soon as a response has arrived with a
  success status and its body is decoded, before the provider's status is looked at.
  When the request ends without a decoded body (the connection fails, the status is an
  HTTP error, the body is not JSON), \<open>_make_api_request\<close> raises and leaves the client
  as it was. When a body was decoded, the timestamp is the clock reading after the
  response, whether the call then returns or raises.
\<close>

theorem timestamp_set_once_decoded:
  "((\<forall>data. snd (net (length (sent w)) (api_request self address action)) \<noteq> Json data) \<longrightarrow>
      (\<exists>e. fst (make_api_request net self address action w) = Inl e)
      \<and> last_request_timestamp (fst (snd (make_api_request net self address action w))) =
          last_request_timestamp self)
   \<and> (snd (net (length (sent w)) (api_request self address action)) = Json data \<longrightarrow>
      last_request_timestamp (fst (snd (make_api_request net self address action w))) =
        clock (snd (snd (make_api_request net self address action w))))"
  using make_api_request_no_json [of net w self address action]
    make_api_request_timestamp [of net w self address action data]
  by auto

theorem timestamp_set_once_decoded_witness:
  "(\<exists>e. fst (make_api_request net_down api0 ''0xab'' ''txlist'' world0) = Inl e)
   \<and> last_request_timestamp (fst (snd (make_api_request net_down api0 ''0xab'' ''txlist'' world0)))
       = last_request_timestamp api0
   \<and> last_request_timestamp (fst (snd (make_api_request net_notok api0 ''0xab'' ''txlist'' world0)))
       = clock (snd (snd (make_api_request net_notok api0 ''0xab'' ''txlist'' world0)))"
proof -
  have down: "\<forall>data. snd (net_down (length (sent world0)) (api_request api0 ''0xab'' ''txlist''))
                 \<noteq> Json data"
    by (simp add: net_down_def)
  have notok: "snd (net_notok (length (sent world0)) (api_request api0 ''0xab'' ''txlist'')) =
      Json (PDict [(''status'', PStr ''0''), (''message'', PStr ''NOTOK''),
                   (''result'', PStr ''Invalid API Key''),
                   (''error'', PBool True), (''error_message'', PStr ''backend queue full'')])"
    by (simp add: net_notok_def)
  from timestamp_set_once_decoded
         [where net = net_down and w = world0 and self = api0 and address = "''0xab''"
            and action = "''txlist''", THEN conjunct1, THEN mp, OF down]
       timestamp_set_once_decoded
         [where net = net_notok and w = world0 and self = api0 and address = "''0xab''"
            and action = "''txlist''", THEN conjunct2, THEN mp, OF notok]
  show ?thesis by blast
qed

theorem timestamp_unchanged_on_raise_counterexample:
  "fst (make_api_request net_notok api0 ''0xab'' ''txlist'' world0) =
     Inl (RuntimeError (AnErrorOccurred (RuntimeError (ApiError (PStr ''NOTOK'')))))
   \<and> last_request_timestamp api0 = 0
   \<and> last_request_timestamp (fst (snd (make_api_request net_notok api0 ''0xab'' ''txlist'' world0)))
       = 101"
  by (simp add: make_api_request_def http_get_def net_notok_def api0_def world0_def
      BlockExplorerApi_init_def api_request_def api_response_def int_of_str_0
      NO_TRANSACTIONS_def Let_def)

end
